theory Spec2Isabelle
  imports Main "HOL-Library.Sublist"
begin

section \<open>Strings and constants of \<^verbatim>\<open>app.py\<close>\<close>

text \<open>
  A Python \<^verbatim>\<open>str\<close> is modelled as a \<^typ>\<open>string\<close> holding its UTF-8 bytes: the empty
  \<^verbatim>\<open>str\<close> is \<open>[]\<close>, \<^verbatim>\<open>+\<close> is \<open>@\<close>, and equality of the byte lists is equality of the
  strings. The Korean literals of the script are written byte by byte (\<open>CHR 0x..\<close>).
  An optional string (\<^verbatim>\<open>os.getenv\<close>, \<^verbatim>\<open>st.chat_input\<close>, \<^verbatim>\<open>chunk.text\<close>) is a
  \<^typ>\<open>string option\<close>; Python's truth test on it is \<open>truthy\<close>.
\<close>

fun truthy :: "string option \<Rightarrow> bool" where
  "truthy None = False"
| "truthy (Some s) = (s \<noteq> [])"

text \<open>Lines 9-16: the six adjacent literals of \<^verbatim>\<open>SYSTEM_INSTRUCTION\<close>, concatenated.\<close>

definition SYSTEM_INSTRUCTION :: string where
  "SYSTEM_INSTRUCTION =
    ([CHR 0xEB, CHR 0x8B, CHR 0xB9, CHR 0xEC, CHR 0x8B, CHR 0xA0, CHR 0xEC, CHR 0x9D, CHR 0x80]
     @ '' '' @ [CHR 0xEA, CHR 0xB5, CHR 0xAC, CHR 0xEA, CHR 0xB8, CHR 0x80] @ '' '' @
     [CHR 0xEC, CHR 0xBD, CHR 0x94, CHR 0xEB, CHR 0x9E, CHR 0xA9] @ ''(Colab) '' @ [CHR 0xED,
      CHR 0x99, CHR 0x98, CHR 0xEA, CHR 0xB2, CHR 0xBD, CHR 0xEC, CHR 0x97, CHR 0x90] @ '' '' @ [
      CHR 0xEC, CHR 0xB5, CHR 0x9C, CHR 0xEC, CHR 0xA0, CHR 0x81, CHR 0xED, CHR 0x99, CHR 0x94,
      CHR 0xEB, CHR 0x90, CHR 0x9C] @ '' '' @
     [CHR 0xEC, CHR 0xA0, CHR 0x84, CHR 0xEB, CHR 0xAC, CHR 0xB8] @ '' '' @
     [CHR 0xEC, CHR 0xBD, CHR 0x94, CHR 0xEB, CHR 0x94, CHR 0xA9] @ '' '' @ [CHR 0xEB,
      CHR 0xB9, CHR 0x84, CHR 0xEC, CHR 0x84, CHR 0x9C, CHR 0xEC, CHR 0x9E, CHR 0x85, CHR 0xEB,
      CHR 0x8B, CHR 0x88, CHR 0xEB, CHR 0x8B, CHR 0xA4] @ ''. '')
  @ ([CHR 0xEC, CHR 0x82, CHR 0xAC, CHR 0xEC, CHR 0x9A, CHR 0xA9, CHR 0xEC, CHR 0x9E, CHR 0x90,
      CHR 0xEB, CHR 0x8A, CHR 0x94] @ '' '' @ [CHR 0xED, CHR 0x8C, CHR 0x8C, CHR 0xEC,
      CHR 0x9D, CHR 0xB4, CHR 0xEC, CHR 0x8D, CHR 0xAC] @ '' '' @ [CHR 0xEC, CHR 0xB4,
      CHR 0x88, CHR 0xEB, CHR 0xB3, CHR 0xB4, CHR 0xEC, CHR 0x9E, CHR 0x90, CHR 0xEB, CHR 0xB6,
      CHR 0x80, CHR 0xED, CHR 0x84, CHR 0xB0] @ '' '' @ [CHR 0xEC, CHR 0x88, CHR 0x99,
      CHR 0xEB, CHR 0xA0, CHR 0xA8, CHR 0xEC, CHR 0x9E, CHR 0x90, CHR 0xEA, CHR 0xB9, CHR 0x8C,
      CHR 0xEC, CHR 0xA7, CHR 0x80] @ '' '' @ [CHR 0xEB, CHR 0x8B, CHR 0xA4, CHR 0xEC,
      CHR 0x96, CHR 0x91, CHR 0xED, CHR 0x95, CHR 0xA9, CHR 0xEB, CHR 0x8B, CHR 0x88, CHR 0xEB,
      CHR 0x8B, CHR 0xA4] @ ''. '')
  @ ([CHR 0xEC, CHR 0x82, CHR 0xAC, CHR 0xEC, CHR 0x9A, CHR 0xA9, CHR 0xEC, CHR 0x9E, CHR 0x90,
      CHR 0xEC, CHR 0x9D, CHR 0x98] @ '' '' @ [CHR 0xEC, CHR 0xA7, CHR 0x88, CHR 0xEB,
      CHR 0xAC, CHR 0xB8, CHR 0xEC, CHR 0x97, CHR 0x90] @ '' '' @
     [CHR 0xEB, CHR 0x8C, CHR 0x80, CHR 0xED, CHR 0x95, CHR 0xB4] @ '' '' @ [CHR 0xEB,
      CHR 0xAA, CHR 0x85, CHR 0xED, CHR 0x99, CHR 0x95, CHR 0xED, CHR 0x95, CHR 0x98, CHR 0xEA,
      CHR 0xB3, CHR 0xA0] @ '' '' @ [CHR 0xEA, CHR 0xB0, CHR 0x84, CHR 0xEA, CHR 0xB2,
      CHR 0xB0, CHR 0xED, CHR 0x95, CHR 0x98, CHR 0xEB, CHR 0xA9, CHR 0xB0] @ '' '' @
     [CHR 0xEC, CHR 0x8B, CHR 0xA4, CHR 0xED, CHR 0x96, CHR 0x89] @ '' '' @ [CHR 0xEA,
      CHR 0xB0, CHR 0x80, CHR 0xEB, CHR 0x8A, CHR 0xA5, CHR 0xED, CHR 0x95, CHR 0x9C] @ '' '' @ [
      CHR 0xED, CHR 0x8C, CHR 0x8C, CHR 0xEC, CHR 0x9D, CHR 0xB4, CHR 0xEC, CHR 0x8D, CHR 0xAC]
     @ '' '' @ [CHR 0xEC, CHR 0xBD, CHR 0x94, CHR 0xEB, CHR 0x93, CHR 0x9C, CHR 0xEB, CHR 0xA5,
      CHR 0xBC] @ '' '' @ [CHR 0xEC, CHR 0xA0, CHR 0x9C, CHR 0xEA, CHR 0xB3, CHR 0xB5,
      CHR 0xED, CHR 0x95, CHR 0xB4, CHR 0xEC, CHR 0x95, CHR 0xBC] @ '' '' @ [CHR 0xED,
      CHR 0x95, CHR 0xA9, CHR 0xEB, CHR 0x8B, CHR 0x88, CHR 0xEB, CHR 0x8B, CHR 0xA4] @ ''. '')
  @ ([CHR 0xEC, CHR 0x82, CHR 0xAC, CHR 0xEC, CHR 0x9A, CHR 0xA9, CHR 0xEC, CHR 0x9E, CHR 0x90,
      CHR 0xEA, CHR 0xB0, CHR 0x80] @ '' '' @ [CHR 0xED, CHR 0x8C, CHR 0x8C, CHR 0xEC,
      CHR 0x9D, CHR 0xB4, CHR 0xEC, CHR 0x8D, CHR 0xAC] @ '' '' @ [CHR 0xEC, CHR 0xBD,
      CHR 0x94, CHR 0xEB, CHR 0x93, CHR 0x9C, CHR 0xEB, CHR 0xA5, CHR 0xBC] @ '' '' @ [
      CHR 0xEC, CHR 0xA0, CHR 0x9C, CHR 0xEC, CHR 0x8B, CHR 0x9C, CHR 0xED, CHR 0x95, CHR 0x98,
      CHR 0xEB, CHR 0xA9, CHR 0xB4] @ '', '' @
     [CHR 0xED, CHR 0x95, CHR 0xB4, CHR 0xEB, CHR 0x8B, CHR 0xB9] @ '' '' @ [CHR 0xEC,
      CHR 0xBD, CHR 0x94, CHR 0xEB, CHR 0x93, CHR 0x9C, CHR 0xEC, CHR 0x9D, CHR 0x98] @ '' '' @
     [CHR 0xEC, CHR 0x98, CHR 0xA4, CHR 0xEB, CHR 0xA5, CHR 0x98] @
     ''(SyntaxError, NameError, TypeError '' @ [CHR 0xEB, CHR 0x93, CHR 0xB1] @ '')'' @
     [CHR 0xEB, CHR 0xA5, CHR 0xBC] @ '' '' @ [CHR 0xEC, CHR 0xA7, CHR 0x84, CHR 0xEB,
      CHR 0x8B, CHR 0xA8, CHR 0xED, CHR 0x95, CHR 0x98, CHR 0xEA, CHR 0xB3, CHR 0xA0] @ '', ''
     @ [CHR 0xEC, CHR 0x98, CHR 0xA4, CHR 0xEB, CHR 0xA5, CHR 0x98, CHR 0xEA, CHR 0xB0,
      CHR 0x80] @ '' '' @ [CHR 0xEB, CHR 0x82, CHR 0x9C] @ '' '' @ [CHR 0xEC, CHR 0x9D,
      CHR 0xB4, CHR 0xEC, CHR 0x9C, CHR 0xA0, CHR 0xEC, CHR 0x99, CHR 0x80] @ '' '' @
     [CHR 0xED, CHR 0x95, CHR 0xA8, CHR 0xEA, CHR 0xBB, CHR 0x98] @ '' '' @ [CHR 0xEC,
      CHR 0xA0, CHR 0x95, CHR 0xED, CHR 0x99, CHR 0x95, CHR 0xED, CHR 0x95, CHR 0x98, CHR 0xEA,
      CHR 0xB3, CHR 0xA0] @ '' '' @ [CHR 0xEC, CHR 0xB9, CHR 0x9C, CHR 0xEC, CHR 0xA0,
      CHR 0x88, CHR 0xED, CHR 0x95, CHR 0x9C] @ '' '' @ [CHR 0xED, CHR 0x95, CHR 0xB4,
      CHR 0xEA, CHR 0xB2, CHR 0xB0, CHR 0xEC, CHR 0xB1, CHR 0x85, CHR 0xEC, CHR 0x9D, CHR 0x84]
     @ '' '' @ [CHR 0xEC, CHR 0xA0, CHR 0x9C, CHR 0xEC, CHR 0x8B, CHR 0x9C, CHR 0xED, CHR 0x95,
      CHR 0x98, CHR 0xEC, CHR 0x97, CHR 0xAC] @ '' '' @ [CHR 0xEC, CHR 0xBD, CHR 0x94,
      CHR 0xEB, CHR 0x93, CHR 0x9C, CHR 0xEB, CHR 0xA5, CHR 0xBC] @ '' '' @ [CHR 0xEA,
      CHR 0xB3, CHR 0xA0, CHR 0xEC, CHR 0xB3, CHR 0x90, CHR 0xEC, CHR 0xA3, CHR 0xBC, CHR 0xEC,
      CHR 0x84, CHR 0xB8, CHR 0xEC, CHR 0x9A, CHR 0x94] @ ''. '' @ [CHR 0xEB, CHR 0x94,
      CHR 0x94, CHR 0xEB, CHR 0xB2, CHR 0x84, CHR 0xEA, CHR 0xB9, CHR 0x85, CHR 0xEC, CHR 0x9D,
      CHR 0xB4] @ '' '' @ [CHR 0xEC, CHR 0xA3, CHR 0xBC, CHR 0xEC, CHR 0x9A, CHR 0x94] @ '' ''
     @ [CHR 0xEC, CHR 0x97, CHR 0x85, CHR 0xEB, CHR 0xAC, CHR 0xB4] @ '' '' @
     [CHR 0xEC, CHR 0xA4, CHR 0x91] @ '' '' @ [CHR 0xED, CHR 0x95, CHR 0x98, CHR 0xEB,
      CHR 0x82, CHR 0x98, CHR 0xEC, CHR 0x9E, CHR 0x85, CHR 0xEB, CHR 0x8B, CHR 0x88, CHR 0xEB,
      CHR 0x8B, CHR 0xA4] @ ''. '')
  @ ([CHR 0xEC, CHR 0xBD, CHR 0x94, CHR 0xEB, CHR 0x93, CHR 0x9C] @ '' '' @ [CHR 0xEC,
      CHR 0x84, CHR 0xA4, CHR 0xEB, CHR 0xAA, CHR 0x85, CHR 0xEC, CHR 0x9D, CHR 0x80] @ '' '' @ [
      CHR 0xEC, CHR 0xA3, CHR 0xBC, CHR 0xEC, CHR 0x84, CHR 0x9D, CHR 0xEA, CHR 0xB3, CHR 0xBC]
     @ '' '' @ [CHR 0xED, CHR 0x95, CHR 0xA8, CHR 0xEA, CHR 0xBB, CHR 0x98] @ '' '' @ [
      CHR 0xEC, CHR 0xA0, CHR 0x9C, CHR 0xEA, CHR 0xB3, CHR 0xB5, CHR 0xED, CHR 0x95, CHR 0x98,
      CHR 0xEB, CHR 0xA9, CHR 0xB0] @ '', '' @
     [CHR 0xEB, CHR 0xAA, CHR 0xA8, CHR 0xEB, CHR 0x93, CHR 0xA0] @ '' '' @ [CHR 0xEC,
      CHR 0xBD, CHR 0x94, CHR 0xEB, CHR 0x93, CHR 0x9C, CHR 0xEB, CHR 0x8A, CHR 0x94] @ '' '' @
     [CHR 0xEA, CHR 0xB5, CHR 0xAC, CHR 0xEA, CHR 0xB8, CHR 0x80] @ '' '' @
     [CHR 0xEC, CHR 0xBD, CHR 0x94, CHR 0xEB, CHR 0x9E, CHR 0xA9] @ '' '' @ [CHR 0xED,
      CHR 0x99, CHR 0x98, CHR 0xEA, CHR 0xB2, CHR 0xBD, CHR 0xEC, CHR 0x97, CHR 0x90, CHR 0xEC,
      CHR 0x84, CHR 0x9C] @ '' '' @ [CHR 0xEB, CHR 0xB0, CHR 0x94, CHR 0xEB, CHR 0xA1, CHR 0x9C]
     @ '' '' @ [CHR 0xEC, CHR 0x8B, CHR 0xA4, CHR 0xED, CHR 0x96, CHR 0x89] @ '' '' @ [
      CHR 0xEA, CHR 0xB0, CHR 0x80, CHR 0xEB, CHR 0x8A, CHR 0xA5, CHR 0xED, CHR 0x95, CHR 0x98,
      CHR 0xEB, CHR 0x8F, CHR 0x84, CHR 0xEB, CHR 0xA1, CHR 0x9D] @ '' '' @ [CHR 0xEC,
      CHR 0x9E, CHR 0x91, CHR 0xEC, CHR 0x84, CHR 0xB1, CHR 0xED, CHR 0x95, CHR 0xB4, CHR 0xEC,
      CHR 0x95, CHR 0xBC] @ '' '' @ [CHR 0xED, CHR 0x95, CHR 0xA9, CHR 0xEB, CHR 0x8B,
      CHR 0x88, CHR 0xEB, CHR 0x8B, CHR 0xA4] @ ''. '')
  @ ([CHR 0xEC, CHR 0x82, CHR 0xAC, CHR 0xEC, CHR 0x9A, CHR 0xA9, CHR 0xEC, CHR 0x9E, CHR 0x90,
      CHR 0xEA, CHR 0xB0, CHR 0x80] @ '' '' @ [CHR 0xEC, CHR 0x9A, CHR 0x94, CHR 0xEC,
      CHR 0xB2, CHR 0xAD, CHR 0xED, CHR 0x95, CHR 0x98, CHR 0xEC, CHR 0xA7, CHR 0x80] @ '' '' @
     [CHR 0xEC, CHR 0x95, CHR 0x8A, CHR 0xEB, CHR 0x8A, CHR 0x94] @ '' '' @
     [CHR 0xED, CHR 0x95, CHR 0x9C] @ '', '' @ [CHR 0xEB, CHR 0xB6, CHR 0x88, CHR 0xED,
      CHR 0x95, CHR 0x84, CHR 0xEC, CHR 0x9A, CHR 0x94, CHR 0xED, CHR 0x95, CHR 0x9C] @ '' '' @ [
      CHR 0xEC, CHR 0x84, CHR 0x9C, CHR 0xEB, CHR 0xA1, CHR 0xA0, CHR 0xEC, CHR 0x9D, CHR 0xB4,
      CHR 0xEB, CHR 0x82, CHR 0x98] @ '' '' @
     [CHR 0xEA, CHR 0xB2, CHR 0xB0, CHR 0xEB, CHR 0xA1, CHR 0xA0] @ '' '' @
     [CHR 0xEC, CHR 0x97, CHR 0x86, CHR 0xEC, CHR 0x9D, CHR 0xB4] @ '' '' @ [CHR 0xED,
      CHR 0x95, CHR 0xB5, CHR 0xEC, CHR 0x8B, CHR 0xAC, CHR 0xEC, CHR 0xA0, CHR 0x81, CHR 0xEC,
      CHR 0x9D, CHR 0xB8] @ '' '' @ [CHR 0xEC, CHR 0xBD, CHR 0x94, CHR 0xEB, CHR 0x93,
      CHR 0x9C, CHR 0xEC, CHR 0x99, CHR 0x80] @ '' '' @ [CHR 0xEC, CHR 0x84, CHR 0xA4,
      CHR 0xEB, CHR 0xAA, CHR 0x85, CHR 0xEC, CHR 0x9D, CHR 0x84] @ '' '' @ [CHR 0xEC,
      CHR 0xA0, CHR 0x9C, CHR 0xEA, CHR 0xB3, CHR 0xB5, CHR 0xED, CHR 0x95, CHR 0x98, CHR 0xEC,
      CHR 0x84, CHR 0xB8, CHR 0xEC, CHR 0x9A, CHR 0x94] @ ''.'')"

definition MODEL_NAME :: string where
  "MODEL_NAME = ''gemini-2.5-flash''"

text \<open>Lines 24 and 25: the two messages shown when the key is missing.\<close>

definition missing_key_error :: string where
  "missing_key_error =
     [CHR 0xE2, CHR 0x9D, CHR 0x8C] @ '' '' @
     [CHR 0xEC, CHR 0x98, CHR 0xA4, CHR 0xEB, CHR 0xA5, CHR 0x98] @ '': '' @ [CHR 0x27] @
     ''GEMINI_API_KEY'' @ [CHR 0x27] @ '' '' @
     [CHR 0xED, CHR 0x99, CHR 0x98, CHR 0xEA, CHR 0xB2, CHR 0xBD] @ '' '' @
     [CHR 0xEB, CHR 0xB3, CHR 0x80, CHR 0xEC, CHR 0x88, CHR 0x98] @ '' '' @
     [CHR 0xEB, CHR 0x98, CHR 0x90, CHR 0xEB, CHR 0x8A, CHR 0x94] @ '' Streamlit Secret'' @
     [CHR 0xEC, CHR 0x9D, CHR 0xB4] @ '' '' @ [CHR 0xEC, CHR 0x84, CHR 0xA4, CHR 0xEC,
      CHR 0xA0, CHR 0x95, CHR 0xEB, CHR 0x90, CHR 0x98, CHR 0xEC, CHR 0xA7, CHR 0x80] @ '' '' @ [
      CHR 0xEC, CHR 0x95, CHR 0x8A, CHR 0xEC, CHR 0x95, CHR 0x98, CHR 0xEC, CHR 0x8A, CHR 0xB5,
      CHR 0xEB, CHR 0x8B, CHR 0x88, CHR 0xEB, CHR 0x8B, CHR 0xA4] @ ''.''"

definition missing_key_hint :: string where
  "missing_key_hint =
     [CHR 0xF0, CHR 0x9F, CHR 0x91, CHR 0x89] @ '' '' @ [CHR 0xEC, CHR 0x82, CHR 0xAC,
      CHR 0xEC, CHR 0x9D, CHR 0xB4, CHR 0xEB, CHR 0x93, CHR 0x9C, CHR 0xEB, CHR 0xB0, CHR 0x94,
      CHR 0xEC, CHR 0x9D, CHR 0x98] @ '' '' @
     [CHR 0x27, CHR 0xEC, CHR 0x8B, CHR 0xA4, CHR 0xED, CHR 0x96, CHR 0x89] @ '' '' @
     [CHR 0xEB, CHR 0xB0, CHR 0xA9, CHR 0xEB, CHR 0xB2, CHR 0x95, CHR 0x27] @ '' '' @ [
      CHR 0xEC, CHR 0x84, CHR 0xB9, CHR 0xEC, CHR 0x85, CHR 0x98, CHR 0xEC, CHR 0x9D, CHR 0x84]
     @ '' '' @ [CHR 0xEC, CHR 0xB0, CHR 0xB8, CHR 0xEA, CHR 0xB3, CHR 0xA0, CHR 0xED, CHR 0x95,
      CHR 0x98, CHR 0xEC, CHR 0x97, CHR 0xAC] @ '' API '' @
     [CHR 0xED, CHR 0x82, CHR 0xA4, CHR 0xEB, CHR 0xA5, CHR 0xBC] @ '' '' @ [CHR 0xEC,
      CHR 0x84, CHR 0xA4, CHR 0xEC, CHR 0xA0, CHR 0x95, CHR 0xED, CHR 0x95, CHR 0xB4, CHR 0xEC,
      CHR 0xA3, CHR 0xBC, CHR 0xEC, CHR 0x84, CHR 0xB8, CHR 0xEC, CHR 0x9A, CHR 0x94] @ ''.''"

text \<open>Line 32: the prefix of the f-string shown when \<^verbatim>\<open>genai.Client\<close> raises.\<close>

definition client_init_prefix :: string where
  "client_init_prefix =
     [CHR 0xE2, CHR 0x9A, CHR 0xA0, CHR 0xEF, CHR 0xB8, CHR 0x8F] @ '' Gemini '' @ [CHR 0xED,
      CHR 0x81, CHR 0xB4, CHR 0xEB, CHR 0x9D, CHR 0xBC, CHR 0xEC, CHR 0x9D, CHR 0xB4, CHR 0xEC,
      CHR 0x96, CHR 0xB8, CHR 0xED, CHR 0x8A, CHR 0xB8] @ '' '' @ [CHR 0xEC, CHR 0xB4,
      CHR 0x88, CHR 0xEA, CHR 0xB8, CHR 0xB0, CHR 0xED, CHR 0x99, CHR 0x94] @ '' '' @
     [CHR 0xEC, CHR 0x8B, CHR 0xA4, CHR 0xED, CHR 0x8C, CHR 0xA8] @ '': ''"

text \<open>Line 48: the content of the welcome message.\<close>

definition welcome_content :: string where
  "welcome_content =
     [CHR 0xEC, CHR 0x95, CHR 0x88, CHR 0xEB, CHR 0x85, CHR 0x95, CHR 0xED, CHR 0x95, CHR 0x98,
      CHR 0xEC, CHR 0x84, CHR 0xB8, CHR 0xEC, CHR 0x9A, CHR 0x94] @ ''! '' @
     [CHR 0xEC, CHR 0xA0, CHR 0x80, CHR 0xEB, CHR 0x8A, CHR 0x94] @ '' '' @
     [CHR 0xEC, CHR 0xBD, CHR 0x94, CHR 0xEB, CHR 0x9E, CHR 0xA9] @ '' '' @ [CHR 0xED,
      CHR 0x99, CHR 0x98, CHR 0xEA, CHR 0xB2, CHR 0xBD, CHR 0xEC, CHR 0x97, CHR 0x90] @ '' '' @ [
      CHR 0xEC, CHR 0xB5, CHR 0x9C, CHR 0xEC, CHR 0xA0, CHR 0x81, CHR 0xED, CHR 0x99, CHR 0x94,
      CHR 0xEB, CHR 0x90, CHR 0x9C] @ '' '' @
     [CHR 0xEC, CHR 0xBD, CHR 0x94, CHR 0xEB, CHR 0x94, CHR 0xA9] @ '' '' @
     [CHR 0xEB, CHR 0xB9, CHR 0x84, CHR 0xEC, CHR 0x84, CHR 0x9C] @ '' '' @ [CHR 0xEC,
      CHR 0xA0, CHR 0x9C, CHR 0xEB, CHR 0xAF, CHR 0xB8, CHR 0xEB, CHR 0x82, CHR 0x98, CHR 0xEC,
      CHR 0x9D, CHR 0xB4, CHR 0xEC, CHR 0x9E, CHR 0x85, CHR 0xEB, CHR 0x8B, CHR 0x88, CHR 0xEB,
      CHR 0x8B, CHR 0xA4] @ ''. '' @
     [CHR 0xEC, CHR 0x96, CHR 0xB4, CHR 0xEB, CHR 0x96, CHR 0xA4] @ '' '' @ [CHR 0xED,
      CHR 0x8C, CHR 0x8C, CHR 0xEC, CHR 0x9D, CHR 0xB4, CHR 0xEC, CHR 0x8D, CHR 0xAC] @ '' '' @ [
      CHR 0xEC, CHR 0xBD, CHR 0x94, CHR 0xEB, CHR 0x93, CHR 0x9C, CHR 0xEA, CHR 0xB0, CHR 0x80]
     @ '' '' @ [CHR 0xED, CHR 0x95, CHR 0x84, CHR 0xEC, CHR 0x9A, CHR 0x94, CHR 0xED, CHR 0x95,
      CHR 0x98, CHR 0xEA, CHR 0xB1, CHR 0xB0, CHR 0xEB, CHR 0x82, CHR 0x98] @ '', **'' @ [
      CHR 0xEC, CHR 0x98, CHR 0xA4, CHR 0xEB, CHR 0xA5, CHR 0x98, CHR 0xEA, CHR 0xB0, CHR 0x80]
     @ '' '' @ [CHR 0xEB, CHR 0x82, CHR 0x9C] @ '' '' @ [CHR 0xEC, CHR 0xBD, CHR 0x94,
      CHR 0xEB, CHR 0x93, CHR 0x9C, CHR 0xEB, CHR 0xA5, CHR 0xBC] @ '' '' @ [CHR 0xEB,
      CHR 0xB3, CHR 0xB4, CHR 0xEC, CHR 0x97, CHR 0xAC, CHR 0xEC, CHR 0xA3, CHR 0xBC, CHR 0xEC,
      CHR 0x8B, CHR 0x9C, CHR 0xEB, CHR 0xA9, CHR 0xB4] @ '' '' @
     [CHR 0xEB, CHR 0xB0, CHR 0x94, CHR 0xEB, CHR 0xA1, CHR 0x9C] @ '' '' @ [CHR 0xEA,
      CHR 0xB3, CHR 0xA0, CHR 0xEC, CHR 0xB3, CHR 0x90, CHR 0xEB, CHR 0x93, CHR 0x9C, CHR 0xEB,
      CHR 0xA6, CHR 0xB4, CHR 0xEA, CHR 0xB2, CHR 0x8C, CHR 0xEC, CHR 0x9A, CHR 0x94] @ ''!**''"

text \<open>Line 88: the cursor shown after the partial answer while the stream is running.\<close>

definition cursor :: string where
  "cursor = [CHR 0xE2, CHR 0x96, CHR 0x8C]"

text \<open>Lines 93 and 97: the prefixes of the two f-strings built in the handlers.\<close>

definition api_error_prefix :: string where
  "api_error_prefix =
     ''API '' @ [CHR 0xED, CHR 0x98, CHR 0xB8, CHR 0xEC, CHR 0xB6, CHR 0x9C] @ '' '' @
     [CHR 0xEC, CHR 0xA4, CHR 0x91] @ '' '' @ [CHR 0xEC, CHR 0x98, CHR 0xA4, CHR 0xEB,
      CHR 0xA5, CHR 0x98, CHR 0xEA, CHR 0xB0, CHR 0x80] @ '' '' @ [CHR 0xEB, CHR 0xB0,
      CHR 0x9C, CHR 0xEC, CHR 0x83, CHR 0x9D, CHR 0xED, CHR 0x96, CHR 0x88, CHR 0xEC, CHR 0x8A,
      CHR 0xB5, CHR 0xEB, CHR 0x8B, CHR 0x88, CHR 0xEB, CHR 0x8B, CHR 0xA4] @ '': ''"

definition unexpected_error_prefix :: string where
  "unexpected_error_prefix =
     [CHR 0xEC, CHR 0x98, CHR 0x88, CHR 0xEC, CHR 0x83, CHR 0x81, CHR 0xEC, CHR 0xB9, CHR 0x98]
     @ '' '' @ [CHR 0xEB, CHR 0xAA, CHR 0xBB, CHR 0xED, CHR 0x95, CHR 0x9C] @ '' '' @ [
      CHR 0xEC, CHR 0x98, CHR 0xA4, CHR 0xEB, CHR 0xA5, CHR 0x98, CHR 0xEA, CHR 0xB0, CHR 0x80]
     @ '' '' @ [CHR 0xEB, CHR 0xB0, CHR 0x9C, CHR 0xEC, CHR 0x83, CHR 0x9D, CHR 0xED, CHR 0x96,
      CHR 0x88, CHR 0xEC, CHR 0x8A, CHR 0xB5, CHR 0xEB, CHR 0x8B, CHR 0x88, CHR 0xEB, CHR 0x8B,
      CHR 0xA4] @ '': ''"

section \<open>Data\<close>

text \<open>
  A chat message is the dict \<^verbatim>\<open>{"role": ..., "content": ...}\<close>; the role is a free string,
  as in the source. An entry of the request history is
  \<^verbatim>\<open>{"role": ..., "parts": [{"text": ...}]}\<close>.
\<close>

record message =
  role :: string
  content :: string

record part =
  part_text :: string

record wire_message =
  wire_role :: string
  parts :: "part list"

text \<open>The keyword arguments of \<^verbatim>\<open>client.models.generate_content_stream\<close> (lines 79-83).\<close>

record request =
  model :: string
  contents :: "wire_message list"
  system_instruction :: string

text \<open>
  What can be raised, each with the text \<^verbatim>\<open>str(e)\<close> that the f-strings interpolate:
  \<^verbatim>\<open>errors.APIError\<close>, any other exception derived from \<^verbatim>\<open>Exception\<close>, and an exception
  derived from \<^verbatim>\<open>BaseException\<close> only (\<^verbatim>\<open>KeyboardInterrupt\<close>, \<^verbatim>\<open>SystemExit\<close>,
  \<^verbatim>\<open>GeneratorExit\<close>), which \<^verbatim>\<open>except Exception\<close> does not catch.
\<close>

datatype exn = APIError string | OtherException string | BaseExceptionOnly string

fun str :: "exn \<Rightarrow> string" where
  "str (APIError s) = s"
| "str (OtherException s) = s"
| "str (BaseExceptionOnly s) = s"

text \<open>\<^verbatim>\<open>isinstance(e, Exception)\<close>: what the clause \<^verbatim>\<open>except Exception\<close> catches.\<close>

fun is_Exception :: "exn \<Rightarrow> bool" where
  "is_Exception (APIError s) = True"
| "is_Exception (OtherException s) = True"
| "is_Exception (BaseExceptionOnly s) = False"

datatype py_error = KeyError string

text \<open>
  What the provider does when the stream is opened and iterated: it yields chunks, whose
  \<^verbatim>\<open>text\<close> is a string or \<^verbatim>\<open>None\<close>, and may raise at any point (a \<open>Raise\<close> in first
  position is a call that fails before the first chunk). The stream is finite.
\<close>

datatype stream_item = Chunk "string option" | Raise exn

text \<open>
  The surroundings of one run of the script: the environment variable, whether
  \<^verbatim>\<open>genai.Client(api_key=api_key)\<close> raises, what \<^verbatim>\<open>st.chat_input\<close> returns, and what
  the provider streams back to the one call this run can make.
\<close>

record world =
  GEMINI_API_KEY :: "string option"
  client_raises :: "exn option"
  chat_input :: "string option"
  response_stream :: "stream_item list"

text \<open>\<^verbatim>\<open>st.session_state\<close>: the key \<^verbatim>\<open>"messages"\<close> is absent (\<open>None\<close>) or holds the list.\<close>

record session_state =
  messages :: "message list option"

text \<open>
  What a run shows: \<^verbatim>\<open>st.error\<close>, a \<^verbatim>\<open>st.markdown\<close> inside \<^verbatim>\<open>st.chat_message(role)\<close>, and
  \<^verbatim>\<open>message_placeholder.markdown\<close>, which replaces what the placeholder showed before.
  The page title, caption, divider and sidebar write no state and are left out.
\<close>

datatype ui_event =
    StError string
  | ChatMarkdown string string
  | PlaceholderMarkdown string

text \<open>
  How a run ends: at the end of the script, at \<^verbatim>\<open>st.stop()\<close>, or with an exception that no
  handler caught (a \<^verbatim>\<open>KeyError\<close> of the script's own, or one raised by the libraries).
\<close>

datatype outcome = Completed | Stopped | Uncaught py_error | Propagated exn

record run =
  state :: session_state
  ui :: "ui_event list"
  calls :: "request list"
  outcome :: outcome

section \<open>The script\<close>

subsection \<open>Lines 64-70: the history sent to the provider\<close>

definition role_map :: "string \<rightharpoonup> string" where
  "role_map = [''user'' \<mapsto> ''user'', ''assistant'' \<mapsto> ''model'']"

text \<open>\<^verbatim>\<open>k in d\<close> and \<^verbatim>\<open>d[k]\<close> on a dict; the second raises \<^verbatim>\<open>KeyError\<close> on a missing key.\<close>

definition contains :: "(string \<rightharpoonup> string) \<Rightarrow> string \<Rightarrow> bool" where
  "contains d k = (case d k of None \<Rightarrow> False | Some v \<Rightarrow> True)"

definition getitem :: "(string \<rightharpoonup> string) \<Rightarrow> string \<Rightarrow> py_error + string" where
  "getitem d k = (case d k of None \<Rightarrow> Inl (KeyError k) | Some v \<Rightarrow> Inr v)"

fun history_loop :: "message list \<Rightarrow> wire_message list \<Rightarrow> py_error + wire_message list" where
  "history_loop [] history = Inr history"
| "history_loop (m # rest) history =
     (if contains role_map (role m) then
        (case getitem role_map (role m) of
           Inl err \<Rightarrow> Inl err
         | Inr r \<Rightarrow>
             history_loop rest
               (history @ [\<lparr>wire_role = r, parts = [\<lparr>part_text = content m\<rparr>]\<rparr>]))
      else history_loop rest history)"

definition render :: "message list \<Rightarrow> py_error + wire_message list" where
  "render ms = history_loop ms []"

subsection \<open>Lines 75-99: streaming the answer\<close>

text \<open>
  The \<^verbatim>\<open>for chunk in response_stream\<close> loop, with \<open>full_response\<close> and the list of texts
  given to \<^verbatim>\<open>message_placeholder.markdown\<close> so far. It ends with the accumulated text, or
  with the exception that left the loop.
\<close>

fun stream_loop :: "stream_item list \<Rightarrow> string \<Rightarrow> string list \<Rightarrow> (exn + string) \<times> string list" where
  "stream_loop [] full_response shown = (Inr full_response, shown)"
| "stream_loop (Raise e # rest) full_response shown = (Inl e, shown)"
| "stream_loop (Chunk t # rest) full_response shown =
     (case t of
        None \<Rightarrow> stream_loop rest full_response shown
      | Some s \<Rightarrow>
          if s \<noteq> [] then
            stream_loop rest (full_response @ s) (shown @ [(full_response @ s) @ cursor])
          else stream_loop rest full_response shown)"

text \<open>
  The \<^verbatim>\<open>try\<close> statement with its two handlers: the final \<open>full_response\<close> (or the
  exception that neither handler caught, which leaves the statement) and what was shown.
\<close>

definition answer :: "stream_item list \<Rightarrow> (exn + string) \<times> ui_event list" where
  "answer response =
     (case stream_loop response [] [] of
        (Inr full_response, shown) \<Rightarrow>
          (Inr full_response, map PlaceholderMarkdown (shown @ [full_response]))
      | (Inl (APIError s), shown) \<Rightarrow>
          (let error_message = api_error_prefix @ s
           in (Inr error_message, map PlaceholderMarkdown shown @ [StError error_message]))
      | (Inl (OtherException s), shown) \<Rightarrow>
          (let error_message = unexpected_error_prefix @ s
           in (Inr error_message, map PlaceholderMarkdown shown @ [StError error_message]))
      | (Inl (BaseExceptionOnly s), shown) \<Rightarrow>
          (Inl (BaseExceptionOnly s), map PlaceholderMarkdown shown))"

subsection \<open>Lines 45-102: the chat, once the client exists\<close>

definition welcome_message :: "message" where
  "welcome_message = \<lparr>role = ''assistant'', content = welcome_content\<rparr>"

text \<open>Lines 45-49: the list the run works on, seeded with the welcome message when absent.\<close>

definition init_messages :: "session_state \<Rightarrow> message list" where
  "init_messages st = (case messages st of None \<Rightarrow> [welcome_message] | Some ms \<Rightarrow> ms)"

definition show_message :: "message \<Rightarrow> ui_event" where
  "show_message m = ChatMarkdown (role m) (content m)"

text \<open>
  Section 4 of the script, entered when \<^verbatim>\<open>prompt\<close> is truthy, on the list \<open>ms\<close> that
  \<^verbatim>\<open>st.session_state.messages\<close> holds. A \<^verbatim>\<open>KeyError\<close> at line 69 would be outside the
  \<^verbatim>\<open>try\<close> and end the run after the user message was appended. An exception that leaves
  the \<^verbatim>\<open>try\<close> statement ends the run before line 102, which is not in a \<^verbatim>\<open>finally\<close>.
\<close>

definition submit :: "world \<Rightarrow> message list \<Rightarrow> string \<Rightarrow> ui_event list \<Rightarrow> run" where
  "submit w ms prompt shown =
     (let ms1 = ms @ [\<lparr>role = ''user'', content = prompt\<rparr>];
          shown1 = shown @ [ChatMarkdown ''user'' prompt]
      in case render ms1 of
           Inl err \<Rightarrow>
             \<lparr>state = \<lparr>messages = Some ms1\<rparr>, ui = shown1, calls = [], outcome = Uncaught err\<rparr>
         | Inr history \<Rightarrow>
             (let req = \<lparr>model = MODEL_NAME, contents = history,
                        system_instruction = SYSTEM_INSTRUCTION\<rparr>
              in case answer (response_stream w) of
                   (Inl e, shown2) \<Rightarrow>
                     \<lparr>state = \<lparr>messages = Some ms1\<rparr>, ui = shown1 @ shown2, calls = [req],
                      outcome = Propagated e\<rparr>
                 | (Inr full_response, shown2) \<Rightarrow>
                     \<lparr>state = \<lparr>messages =
                        Some (ms1 @ [\<lparr>role = ''assistant'', content = full_response\<rparr>])\<rparr>,
                      ui = shown1 @ shown2, calls = [req], outcome = Completed\<rparr>))"

definition chat :: "world \<Rightarrow> session_state \<Rightarrow> run" where
  "chat w st =
     (let ms = init_messages st;
          shown = map show_message ms
      in case chat_input w of
           None \<Rightarrow> \<lparr>state = \<lparr>messages = Some ms\<rparr>, ui = shown, calls = [], outcome = Completed\<rparr>
         | Some prompt \<Rightarrow>
             if prompt \<noteq> [] then submit w ms prompt shown
             else \<lparr>state = \<lparr>messages = Some ms\<rparr>, ui = shown, calls = [], outcome = Completed\<rparr>)"

subsection \<open>Lines 20-33: start-up, and the whole script\<close>

definition halt :: "session_state \<Rightarrow> ui_event list \<Rightarrow> run" where
  "halt st shown = \<lparr>state = st, ui = shown, calls = [], outcome = Stopped\<rparr>"

definition script :: "world \<Rightarrow> session_state \<Rightarrow> run" where
  "script w st =
     (if \<not> truthy (GEMINI_API_KEY w) then
        halt st [StError missing_key_error, StError missing_key_hint]
      else case client_raises w of
             Some e \<Rightarrow>
               if is_Exception e then halt st [StError (client_init_prefix @ str e)]
               else \<lparr>state = st, ui = [], calls = [], outcome = Propagated e\<rparr>
           | None \<Rightarrow> chat w st)"

text \<open>
  A session starts with no key in \<^verbatim>\<open>st.session_state\<close>; the script runs once when the page
  is loaded and once more after every interaction, each run on the state the previous one
  left.
\<close>

definition session_start :: "session_state" where
  "session_start = \<lparr>messages = None\<rparr>"

fun session :: "session_state \<Rightarrow> world list \<Rightarrow> session_state" where
  "session st [] = st"
| "session st (w # ws) = session (state (script w st)) ws"

definition transcript :: "session_state \<Rightarrow> message list" where
  "transcript st = (case messages st of None \<Rightarrow> [] | Some ms \<Rightarrow> ms)"

section \<open>Notions used in the statements\<close>

text \<open>
  The specification's reading of the history: a turn is recognised when its role is
  \<^verbatim>\<open>user\<close> or \<^verbatim>\<open>assistant\<close>, and a recognised turn goes to the provider with the role
  \<^verbatim>\<open>user\<close> or \<^verbatim>\<open>model\<close> and its text wrapped as \<^verbatim>\<open>[{"text": content}]\<close>.
\<close>

definition recognised :: "message \<Rightarrow> bool" where
  "recognised m = (role m = ''user'' \<or> role m = ''assistant'')"

definition wire_of :: "message \<Rightarrow> wire_message" where
  "wire_of m =
     \<lparr>wire_role = (if role m = ''user'' then ''user'' else ''model''),
      parts = [\<lparr>part_text = content m\<rparr>]\<rparr>"

text \<open>
  A run gets past start-up when the key is truthy and the client is built; it is a
  submission when \<^verbatim>\<open>st.chat_input\<close> returned a truthy prompt; a stream succeeds when no
  item of it raises.
\<close>

definition started :: "world \<Rightarrow> bool" where
  "started w = (truthy (GEMINI_API_KEY w) \<and> client_raises w = None)"

definition submits :: "world \<Rightarrow> bool" where
  "submits w = truthy (chat_input w)"


text \<open>A state is seeded when its list, if it has one, begins with the welcome message.\<close>

definition seeded :: "session_state \<Rightarrow> bool" where
  "seeded st = (case messages st of None \<Rightarrow> True
                | Some ms \<Rightarrow> (case ms of [] \<Rightarrow> False | m # rest \<Rightarrow> m = welcome_message))"

text \<open>Two concrete runs: loading the page, and asking \<open>p\<close> with a given provider stream.\<close>

definition page_load :: "world" where
  "page_load =
     \<lparr>GEMINI_API_KEY = Some ''key'', client_raises = None, chat_input = None,
      response_stream = []\<rparr>"

definition asks :: "string \<Rightarrow> stream_item list \<Rightarrow> world" where
  "asks p response =
     \<lparr>GEMINI_API_KEY = Some ''key'', client_raises = None, chat_input = Some p,
      response_stream = response\<rparr>"

section \<open>The history loop\<close>

lemma contains_role_map: "contains role_map r = (r = ''user'' \<or> r = ''assistant'')"
  by (simp add: contains_def role_map_def)

lemma getitem_role_map:
  "getitem role_map ''user'' = Inr ''user''"
  "getitem role_map ''assistant'' = Inr ''model''"
  by (simp_all add: getitem_def role_map_def)

lemma history_loop_eq:
  "history_loop ms h = Inr (h @ map wire_of (filter recognised ms))"
proof (induction ms arbitrary: h)
  case Nil
  show ?case by simp
next
  case (Cons m ms)
  show ?case
  proof (cases "recognised m")
    case False
    then show ?thesis
      by (simp add: Cons.IH contains_role_map recognised_def)
  next
    case True
    then consider "role m = ''user''" | "role m = ''assistant''"
      by (auto simp: recognised_def)
    then show ?thesis
    proof cases
      case 1
      then show ?thesis
        using True by (simp add: Cons.IH contains_role_map getitem_role_map wire_of_def)
    next
      case 2
      then show ?thesis
        using True by (simp add: Cons.IH contains_role_map getitem_role_map wire_of_def)
    qed
  qed
qed

lemma render_eq: "render ms = Inr (map wire_of (filter recognised ms))"
  by (simp add: render_def history_loop_eq)

section \<open>The streaming loop and its handlers\<close>


lemma stream_loop_skip:
  "\<not> truthy t \<Longrightarrow>
   stream_loop (xs @ Chunk t # ys) full shown = stream_loop (xs @ ys) full shown"
proof (induction xs arbitrary: full shown)
  case Nil
  then show ?case by (cases t) simp_all
next
  case (Cons x xs)
  show ?case
  proof (cases x)
    case (Raise e)
    then show ?thesis by simp
  next
    case (Chunk u)
    then show ?thesis
      using Cons.IH [OF Cons.prems] by (cases u) simp_all
  qed
qed

lemma stream_loop_falsy:
  "list_all (\<lambda>t. \<not> truthy t) ts \<Longrightarrow>
   stream_loop (map Chunk ts) full shown = (Inr full, shown)"
proof (induction ts)
  case Nil
  show ?case by simp
next
  case (Cons t ts)
  then show ?case by (cases t) simp_all
qed






lemma answer_falsy:
  "list_all (\<lambda>t. \<not> truthy t) ts \<Longrightarrow>
   answer (map Chunk ts) = (Inr [], [PlaceholderMarkdown []])"
  by (simp add: answer_def stream_loop_falsy)

lemma answer_hello:
  "answer [Chunk (Some ''Hel''), Chunk (Some ''lo''), Chunk (Some '' world'')] =
     (Inr ''Hello world'',
      [PlaceholderMarkdown (''Hel'' @ cursor), PlaceholderMarkdown (''Hello'' @ cursor),
       PlaceholderMarkdown (''Hello world'' @ cursor), PlaceholderMarkdown ''Hello world''])"
  by (simp add: answer_def)


section \<open>One run of the script\<close>

lemma submit_completed:
  assumes "fst (answer (response_stream w)) = Inr full"
  shows "submit w ms p shown =
     \<lparr>state = \<lparr>messages = Some (ms @ [\<lparr>role = ''user'', content = p\<rparr>,
                 \<lparr>role = ''assistant'', content = full\<rparr>])\<rparr>,
      ui = shown @ ChatMarkdown ''user'' p # snd (answer (response_stream w)),
      calls = [\<lparr>model = MODEL_NAME,
                contents = map wire_of (filter recognised (ms @ [\<lparr>role = ''user'', content = p\<rparr>])),
                system_instruction = SYSTEM_INSTRUCTION\<rparr>],
      outcome = Completed\<rparr>"
  using assms
  by (cases "answer (response_stream w)") (simp add: submit_def render_eq Let_def)

lemma submit_propagated:
  assumes "fst (answer (response_stream w)) = Inl e"
  shows "submit w ms p shown =
     \<lparr>state = \<lparr>messages = Some (ms @ [\<lparr>role = ''user'', content = p\<rparr>])\<rparr>,
      ui = shown @ ChatMarkdown ''user'' p # snd (answer (response_stream w)),
      calls = [\<lparr>model = MODEL_NAME,
                contents = map wire_of (filter recognised (ms @ [\<lparr>role = ''user'', content = p\<rparr>])),
                system_instruction = SYSTEM_INSTRUCTION\<rparr>],
      outcome = Propagated e\<rparr>"
  using assms
  by (cases "answer (response_stream w)") (simp add: submit_def render_eq Let_def)

lemma submit_calls:
  "calls (submit w ms p shown) =
     [\<lparr>model = MODEL_NAME,
       contents = map wire_of (filter recognised (ms @ [\<lparr>role = ''user'', content = p\<rparr>])),
       system_instruction = SYSTEM_INSTRUCTION\<rparr>]"
  by (cases "fst (answer (response_stream w))")
    (simp_all add: submit_completed submit_propagated)

lemma submit_extends:
  "\<exists>rest. messages (state (submit w ms p shown))
     = Some (ms @ \<lparr>role = ''user'', content = p\<rparr> # rest)"
  by (cases "fst (answer (response_stream w))")
    (simp_all add: submit_completed submit_propagated)

lemma script_started: "started w \<Longrightarrow> script w st = chat w st"
  by (simp add: script_def started_def)

lemma chat_submit:
  "chat_input w = Some p \<Longrightarrow> p \<noteq> [] \<Longrightarrow>
   chat w st = submit w (init_messages st) p (map show_message (init_messages st))"
  by (simp add: chat_def Let_def)

lemma chat_idle:
  "\<not> submits w \<Longrightarrow>
   chat w st = \<lparr>state = \<lparr>messages = Some (init_messages st)\<rparr>,
                ui = map show_message (init_messages st), calls = [], outcome = Completed\<rparr>"
  by (cases "chat_input w") (simp_all add: chat_def submits_def Let_def)

lemma script_submit:
  assumes "started w" and "chat_input w = Some p" and "p \<noteq> []"
  shows "script w st = submit w (init_messages st) p (map show_message (init_messages st))"
  using assms by (simp add: script_started chat_submit)

lemma script_idle:
  "started w \<Longrightarrow> \<not> submits w \<Longrightarrow>
   script w st = \<lparr>state = \<lparr>messages = Some (init_messages st)\<rparr>,
                  ui = map show_message (init_messages st), calls = [], outcome = Completed\<rparr>"
  by (simp add: script_started chat_idle)

lemma script_not_started:
  "\<not> started w \<Longrightarrow> state (script w st) = st \<and> calls (script w st) = []"
  by (cases "client_raises w") (simp_all add: script_def started_def halt_def)

lemma submits_prompt: "submits w \<Longrightarrow> \<exists>p. chat_input w = Some p \<and> p \<noteq> []"
  by (cases "chat_input w") (simp_all add: submits_def)

lemma started_extends:
  assumes "started w"
  shows "\<exists>ext. messages (state (script w st)) = Some (init_messages st @ ext)"
proof (cases "submits w")
  case False
  then show ?thesis using assms by (simp add: script_idle)
next
  case True
  then obtain p where p: "chat_input w = Some p" "p \<noteq> []"
    using submits_prompt by blast
  show ?thesis
    using submit_extends [of w "init_messages st" p "map show_message (init_messages st)"]
    by (auto simp: script_submit [OF assms p])
qed


lemma init_messages_Some: "messages st = Some ms \<Longrightarrow> init_messages st = ms"
  by (simp add: init_messages_def)

section \<open>Sessions\<close>

lemma script_prefix: "prefix (transcript st) (transcript (state (script w st)))"
proof (cases "started w")
  case False
  then show ?thesis by (simp add: script_not_started)
next
  case True
  then obtain ext where ext: "messages (state (script w st)) = Some (init_messages st @ ext)"
    using started_extends by blast
  show ?thesis
  proof (cases "messages st")
    case None
    then show ?thesis by (simp add: transcript_def)
  next
    case (Some ms)
    then show ?thesis using ext by (simp add: transcript_def init_messages_Some)
  qed
qed

lemma session_prefix: "prefix (transcript st) (transcript (session st ws))"
proof (induction ws arbitrary: st)
  case Nil
  show ?case by simp
next
  case (Cons w ws)
  have "prefix (transcript st) (transcript (state (script w st)))"
    by (rule script_prefix)
  also have "prefix \<dots> (transcript (session (state (script w st)) ws))"
    by (rule Cons.IH)
  finally show ?case by simp
qed

lemma session_append: "session st (ws @ ws') = session (session st ws) ws'"
  by (induction ws arbitrary: st) simp_all

lemma script_seeded: "seeded st \<Longrightarrow> seeded (state (script w st))"
proof (cases "started w")
  case False
  assume "seeded st"
  then show ?thesis using False by (simp add: script_not_started)
next
  case True
  assume s: "seeded st"
  obtain ext where ext: "messages (state (script w st)) = Some (init_messages st @ ext)"
    using True started_extends by blast
  have "\<exists>rest. init_messages st = welcome_message # rest"
    using s by (cases "messages st") (auto simp: seeded_def init_messages_def split: list.splits)
  then show ?thesis using ext by (auto simp: seeded_def)
qed

lemma session_seeded: "seeded st \<Longrightarrow> seeded (session st ws)"
  by (induction ws arbitrary: st) (simp_all add: script_seeded)


section \<open>The concrete runs\<close>

lemma started_examples: "started page_load" "started (asks p r)"
  by (simp_all add: started_def page_load_def asks_def)

lemma submits_examples: "\<not> submits page_load" "submits (asks p r) = (p \<noteq> [])"
  by (simp_all add: submits_def page_load_def asks_def)

lemma asks_fields: "chat_input (asks p r) = Some p" "response_stream (asks p r) = r"
  by (simp_all add: asks_def)

section \<open>The claims\<close>



text \<open>
  Claim C2. On a list whose turns all have the role \<^verbatim>\<open>user\<close> or \<^verbatim>\<open>assistant\<close>, the history
  loop raises nothing and builds a history of the same length, turn by turn in the same
  order: \<^verbatim>\<open>user\<close> stays \<^verbatim>\<open>user\<close>, \<^verbatim>\<open>assistant\<close> becomes \<^verbatim>\<open>model\<close>, and the content is
  wrapped as the one part \<^verbatim>\<open>[{"text": content}]\<close>.
\<close>

theorem render_user_assistant:
  assumes "list_all recognised ms"
  shows "\<exists>history. render ms = Inr history \<and> length history = length ms
     \<and> history = map wire_of ms"
proof -
  have "filter recognised ms = ms"
    using assms by (simp add: list_all_iff)
  then show ?thesis
    by (simp add: render_eq)
qed

theorem render_user_assistant_witness:
  "list_all recognised
     [\<lparr>role = ''assistant'', content = ''hi''\<rparr>, \<lparr>role = ''user'', content = ''yo''\<rparr>]
   \<and> render [\<lparr>role = ''assistant'', content = ''hi''\<rparr>, \<lparr>role = ''user'', content = ''yo''\<rparr>]
       = Inr [\<lparr>wire_role = ''model'', parts = [\<lparr>part_text = ''hi''\<rparr>]\<rparr>,
              \<lparr>wire_role = ''user'', parts = [\<lparr>part_text = ''yo''\<rparr>]\<rparr>]"
proof -
  let ?ms = "[\<lparr>role = ''assistant'', content = ''hi''\<rparr>, \<lparr>role = ''user'', content = ''yo''\<rparr>]"
  have h: "list_all recognised ?ms"
    by (simp add: recognised_def)
  show ?thesis
    using h render_user_assistant [OF h] by (auto simp: wire_of_def)
qed

text \<open>
  Claim C6. On every list of messages the history loop ends without a \<^verbatim>\<open>KeyError\<close>, and
  the history is exactly the recognised turns, in order, each in wire format: a turn
  with any other role is left out.
\<close>

theorem render_drops_unrecognised:
  "render ms = Inr (map wire_of (filter recognised ms))"
  by (simp add: render_def history_loop_eq)

text \<open>
  Claim C7. The history a run sends is the rendering of the list of messages at that
  moment and of nothing else: two submissions of the same prompt on the same list send
  the same history, whatever the key, the provider's stream and the state the list came
  from.
\<close>

theorem render_depends_on_transcript_only:
  assumes "started w1" and "started w2"
    and "chat_input w1 = Some p" and "chat_input w2 = Some p" and "p \<noteq> []"
    and "init_messages st1 = init_messages st2"
  shows "map contents (calls (script w1 st1)) = map contents (calls (script w2 st2))
     \<and> map (\<lambda>req. Inr (contents req)) (calls (script w1 st1))
         = [render (init_messages st1 @ [\<lparr>role = ''user'', content = p\<rparr>])]"
  using assms by (simp add: script_submit submit_calls render_eq)

theorem render_depends_on_transcript_only_witness:
  "started (asks ''q'' [Chunk (Some ''yes'')])
   \<and> started (asks ''q'' [Raise (APIError ''503'')])
   \<and> init_messages session_start = init_messages \<lparr>messages = Some [welcome_message]\<rparr>
   \<and> map contents (calls (script (asks ''q'' [Chunk (Some ''yes'')]) session_start))
       = map contents (calls (script (asks ''q'' [Raise (APIError ''503'')])
           \<lparr>messages = Some [welcome_message]\<rparr>))
   \<and> map contents (calls (script (asks ''q'' [Chunk (Some ''yes'')]) session_start))
       = [[\<lparr>wire_role = ''model'', parts = [\<lparr>part_text = welcome_content\<rparr>]\<rparr>,
           \<lparr>wire_role = ''user'', parts = [\<lparr>part_text = ''q''\<rparr>]\<rparr>]]"
proof -
  let ?w1 = "asks ''q'' [Chunk (Some ''yes'')]"
  let ?w2 = "asks ''q'' [Raise (APIError ''503'')]"
  let ?st2 = "\<lparr>messages = Some [welcome_message]\<rparr>"
  have h1: "started ?w1" and h2: "started ?w2"
    by (rule started_examples)+
  have h3: "chat_input ?w1 = Some ''q''" and h4: "chat_input ?w2 = Some ''q''"
    by (simp_all add: asks_fields)
  have h5: "''q'' \<noteq> []" by simp
  have h6: "init_messages session_start = init_messages ?st2"
    by (simp add: init_messages_def session_start_def)
  have r: "render (init_messages session_start @ [\<lparr>role = ''user'', content = ''q''\<rparr>])
      = Inr [\<lparr>wire_role = ''model'', parts = [\<lparr>part_text = welcome_content\<rparr>]\<rparr>,
             \<lparr>wire_role = ''user'', parts = [\<lparr>part_text = ''q''\<rparr>]\<rparr>]"
    by (simp add: render_eq init_messages_def session_start_def welcome_message_def
        recognised_def wire_of_def)
  show ?thesis
    using h1 h2 h6 r render_depends_on_transcript_only [OF h1 h2 h3 h4 h5 h6]
    by (auto simp: map_eq_Cons_conv)
qed

text \<open>
  Claim C3. When the stream yields \<^verbatim>\<open>"Hel"\<close>, \<^verbatim>\<open>"lo"\<close>, \<^verbatim>\<open>" world"\<close> and ends, the last text
  the placeholder shows is \<^verbatim>\<open>Hello world\<close>, and the assistant turn appended to the list
  has exactly that content, which does not end with the cursor.
\<close>

theorem hello_world_stream:
  assumes "started w" and "chat_input w = Some p" and "p \<noteq> []"
    and "response_stream w = [Chunk (Some ''Hel''), Chunk (Some ''lo''), Chunk (Some '' world'')]"
  shows "last (ui (script w st)) = PlaceholderMarkdown ''Hello world''
     \<and> transcript (state (script w st))
         = init_messages st @ [\<lparr>role = ''user'', content = p\<rparr>,
                        \<lparr>role = ''assistant'', content = ''Hello world''\<rparr>]
     \<and> content (last (transcript (state (script w st)))) = ''Hello world''
     \<and> \<not> suffix cursor (content (last (transcript (state (script w st)))))"
proof -
  have c: "\<not> suffix cursor ''Hello world''"
    by (simp add: suffix_to_prefix cursor_def)
  have "fst (answer (response_stream w)) = Inr ''Hello world''"
    by (simp add: assms(4) answer_hello)
  then show ?thesis
    using assms c
    by (simp add: script_submit submit_completed answer_hello transcript_def)
qed

theorem hello_world_stream_witness:
  "started (asks ''greet'' [Chunk (Some ''Hel''), Chunk (Some ''lo''), Chunk (Some '' world'')])
   \<and> transcript (state (script
         (asks ''greet'' [Chunk (Some ''Hel''), Chunk (Some ''lo''), Chunk (Some '' world'')])
         session_start))
       = [welcome_message, \<lparr>role = ''user'', content = ''greet''\<rparr>,
          \<lparr>role = ''assistant'', content = ''Hello world''\<rparr>]
   \<and> last (ui (script
         (asks ''greet'' [Chunk (Some ''Hel''), Chunk (Some ''lo''), Chunk (Some '' world'')])
         session_start))
       = PlaceholderMarkdown ''Hello world''"
proof -
  let ?w = "asks ''greet'' [Chunk (Some ''Hel''), Chunk (Some ''lo''), Chunk (Some '' world'')]"
  have h1: "started ?w" by (rule started_examples)
  have h2: "chat_input ?w = Some ''greet''" by (simp add: asks_fields)
  have h3: "''greet'' \<noteq> []" by simp
  have h4: "response_stream ?w
      = [Chunk (Some ''Hel''), Chunk (Some ''lo''), Chunk (Some '' world'')]"
    by (simp add: asks_fields)
  show ?thesis
    using h1 hello_world_stream [OF h1 h2 h3 h4, of session_start]
    by (simp add: init_messages_def session_start_def)
qed




text \<open>
  Claim C5. When \<^verbatim>\<open>GEMINI_API_KEY\<close> is not set, the run shows the two error messages and
  stops: the session state is what it was and no request is made.
\<close>

theorem missing_key_halts:
  assumes "GEMINI_API_KEY w = None"
  shows "script w st =
     \<lparr>state = st, ui = [StError missing_key_error, StError missing_key_hint],
      calls = [], outcome = Stopped\<rparr>"
  using assms by (simp add: script_def halt_def)

theorem missing_key_halts_witness:
  "GEMINI_API_KEY (page_load\<lparr>GEMINI_API_KEY := None, chat_input := Some ''q''\<rparr>) = None
   \<and> script (page_load\<lparr>GEMINI_API_KEY := None, chat_input := Some ''q''\<rparr>) session_start =
     \<lparr>state = session_start, ui = [StError missing_key_error, StError missing_key_hint],
      calls = [], outcome = Stopped\<rparr>"
proof -
  let ?w = "page_load\<lparr>GEMINI_API_KEY := None, chat_input := Some ''q''\<rparr>"
  have h: "GEMINI_API_KEY ?w = None" by simp
  show ?thesis
    using h missing_key_halts [OF h, of session_start] by simp
qed

text \<open>
  Claim C8. The first run that gets past start-up creates the list with the welcome
  message, an assistant turn, as its only element (before any turn of a submission is
  appended); every state a session reaches has no list yet or a list that begins with
  the welcome message; and the list at any point of a session is a prefix of the list at
  every later point: nothing is removed or changed in place.
\<close>

theorem transcript_only_grows:
  "(started w \<and> \<not> submits w \<longrightarrow>
      messages (state (script w session_start)) = Some [welcome_message])
   \<and> role welcome_message = ''assistant''
   \<and> seeded (session session_start ws)
   \<and> prefix (transcript (session session_start ws))
         (transcript (session session_start (ws @ ws')))"
proof -
  have "seeded session_start"
    by (simp add: seeded_def session_start_def)
  then have "seeded (session session_start ws)"
    by (rule session_seeded)
  moreover have "prefix (transcript (session session_start ws))
      (transcript (session session_start (ws @ ws')))"
    by (simp add: session_append session_prefix)
  moreover have "role welcome_message = ''assistant''"
    by (simp add: welcome_message_def)
  moreover have "started w \<and> \<not> submits w \<longrightarrow>
      messages (state (script w session_start)) = Some [welcome_message]"
    by (simp add: script_idle init_messages_def session_start_def)
  ultimately show ?thesis by blast
qed

theorem transcript_only_grows_witness:
  "started page_load \<and> \<not> submits page_load
   \<and> messages (state (script page_load session_start)) = Some [welcome_message]
   \<and> seeded (session session_start [page_load, asks ''q'' [Chunk (Some ''a'')]])
   \<and> prefix (transcript (session session_start [page_load]))
        (transcript (session session_start ([page_load] @ [asks ''q'' [Chunk (Some ''a'')]])))"
proof -
  have h: "started page_load \<and> \<not> submits page_load"
    by (simp add: started_examples submits_examples)
  show ?thesis
    using h transcript_only_grows [of page_load "[page_load, asks ''q'' [Chunk (Some ''a'')]]" "[]"]
      transcript_only_grows [of page_load "[page_load]" "[asks ''q'' [Chunk (Some ''a'')]]"]
    by simp
qed

text \<open>
  Claim C9. A submission appends the user turn to the list before the history is built:
  the list the run leaves is the list it started from, then the user turn with the
  prompt, then whatever the answer adds. The run makes exactly one request; its history
  is the rendering of the list with that user turn at its end, so it is not empty and its
  last entry has the role \<^verbatim>\<open>user\<close> and the prompt as its text.
\<close>

theorem request_ends_with_prompt:
  assumes "started w" and "chat_input w = Some p" and "p \<noteq> []"
  shows "\<exists>req rest. calls (script w st) = [req]
     \<and> transcript (state (script w st))
         = init_messages st @ \<lparr>role = ''user'', content = p\<rparr> # rest
     \<and> render (init_messages st @ [\<lparr>role = ''user'', content = p\<rparr>]) = Inr (contents req)
     \<and> contents req \<noteq> []
     \<and> last (contents req) = \<lparr>wire_role = ''user'', parts = [\<lparr>part_text = p\<rparr>]\<rparr>"
proof -
  let ?ms = "init_messages st"
  let ?req = "\<lparr>model = MODEL_NAME,
      contents = map wire_of (filter recognised (?ms @ [\<lparr>role = ''user'', content = p\<rparr>])),
      system_instruction = SYSTEM_INSTRUCTION\<rparr>"
  have s: "script w st = submit w ?ms p (map show_message ?ms)"
    using assms by (rule script_submit)
  obtain rest where "messages (state (script w st))
      = Some (?ms @ \<lparr>role = ''user'', content = p\<rparr> # rest)"
    using submit_extends [of w ?ms p "map show_message ?ms"] by (auto simp: s)
  then have t: "transcript (state (script w st)) = ?ms @ \<lparr>role = ''user'', content = p\<rparr> # rest"
    by (simp add: transcript_def)
  have c: "calls (script w st) = [?req]"
    by (simp add: s submit_calls)
  have r: "render (?ms @ [\<lparr>role = ''user'', content = p\<rparr>]) = Inr (contents ?req)"
    by (simp add: render_eq)
  have l: "contents ?req \<noteq> []
      \<and> last (contents ?req) = \<lparr>wire_role = ''user'', parts = [\<lparr>part_text = p\<rparr>]\<rparr>"
    by (simp add: recognised_def wire_of_def)
  show ?thesis
    using t c r l by blast
qed

theorem request_ends_with_prompt_witness:
  "started (asks ''why?'' [])
   \<and> map (\<lambda>req. last (contents req)) (calls (script (asks ''why?'' []) session_start))
       = [\<lparr>wire_role = ''user'', parts = [\<lparr>part_text = ''why?''\<rparr>]\<rparr>]
   \<and> take 2 (transcript (state (script (asks ''why?'' []) session_start)))
       = [welcome_message, \<lparr>role = ''user'', content = ''why?''\<rparr>]"
proof -
  let ?w = "asks ''why?'' []"
  have h1: "started ?w" by (rule started_examples)
  have h2: "chat_input ?w = Some ''why?''" by (simp add: asks_fields)
  have h3: "''why?'' \<noteq> []" by simp
  show ?thesis
    using h1 request_ends_with_prompt [OF h1 h2 h3, of session_start]
    by (auto simp: init_messages_def session_start_def)
qed

text \<open>
  Claim C10. When the stream ends without raising and every chunk's text is \<^verbatim>\<open>None\<close> or
  empty (also when there is no chunk), the assistant turn appended has the empty content
  and the placeholder shows the empty text only. Anywhere in a stream, a chunk whose text
  is \<^verbatim>\<open>None\<close> or empty changes neither the accumulated text nor what is shown.
\<close>

theorem falsy_chunks_contribute_nothing:
  "(started w \<and> chat_input w = Some p \<and> p \<noteq> [] \<and> response_stream w = map Chunk ts
      \<and> list_all (\<lambda>t. \<not> truthy t) ts \<longrightarrow>
      transcript (state (script w st))
        = init_messages st @ [\<lparr>role = ''user'', content = p\<rparr>, \<lparr>role = ''assistant'', content = []\<rparr>]
      \<and> ui (script w st)
        = map show_message (init_messages st) @ [ChatMarkdown ''user'' p, PlaceholderMarkdown []])
   \<and> (\<not> truthy t \<longrightarrow>
      stream_loop (xs @ Chunk t # ys) full_response shown
        = stream_loop (xs @ ys) full_response shown
      \<and> answer (xs @ Chunk t # ys) = answer (xs @ ys))"
proof -
  have "transcript (state (script w st))
        = init_messages st @ [\<lparr>role = ''user'', content = p\<rparr>, \<lparr>role = ''assistant'', content = []\<rparr>]
      \<and> ui (script w st)
        = map show_message (init_messages st) @ [ChatMarkdown ''user'' p, PlaceholderMarkdown []]"
    if "started w" "chat_input w = Some p" "p \<noteq> []" "response_stream w = map Chunk ts"
      "list_all (\<lambda>t. \<not> truthy t) ts"
    using that
    by (simp add: script_submit submit_completed answer_falsy transcript_def)
  moreover have "stream_loop (xs @ Chunk t # ys) full_response shown
        = stream_loop (xs @ ys) full_response shown
      \<and> answer (xs @ Chunk t # ys) = answer (xs @ ys)"
    if "\<not> truthy t"
    using that by (simp add: stream_loop_skip answer_def)
  ultimately show ?thesis by blast
qed

theorem falsy_chunks_contribute_nothing_witness:
  "started (asks ''q'' (map Chunk [None, Some []]))
   \<and> list_all (\<lambda>t. \<not> truthy t) [None, Some []]
   \<and> transcript (state (script (asks ''q'' (map Chunk [None, Some []])) session_start))
       = [welcome_message, \<lparr>role = ''user'', content = ''q''\<rparr>,
          \<lparr>role = ''assistant'', content = []\<rparr>]
   \<and> \<not> truthy (Some [])
   \<and> answer ([Chunk (Some ''a'')] @ Chunk (Some []) # [Chunk (Some ''b'')])
       = answer ([Chunk (Some ''a'')] @ [Chunk (Some ''b'')])"
proof -
  let ?w = "asks ''q'' (map Chunk [None, Some []])"
  have h: "started ?w \<and> chat_input ?w = Some ''q'' \<and> ''q'' \<noteq> []
      \<and> response_stream ?w = map Chunk [None, Some []]
      \<and> list_all (\<lambda>t. \<not> truthy t) [None, Some []]"
    by (simp add: started_examples asks_fields)
  have g: "\<not> truthy (Some [])" by simp
  show ?thesis
    using h g
      falsy_chunks_contribute_nothing [of ?w "''q''" "[None, Some []]" session_start
        "Some []" "[Chunk (Some ''a'')]" "[Chunk (Some ''b'')]" "[]" "[]"]
    by (simp add: init_messages_def session_start_def)
qed

end
